theory Spec2Isabelle
  imports Main
begin

section \<open>Text primitives\<close>

text \<open>
  The guardrails of \<^verbatim>\<open>Nl2sql/Generate_sql.py\<close> work on Python strings with the
  \<^verbatim>\<open>re\<close> module and the string methods \<^verbatim>\<open>strip\<close>, \<^verbatim>\<open>rstrip\<close>, \<^verbatim>\<open>lower\<close> and \<^verbatim>\<open>upper\<close>.
  SQL text is modelled as a \<^typ>\<open>string\<close> of ASCII characters: the character classes below
  are the ones Python uses on code points below 128, read from the character's code.
\<close>

definition is_upper :: "char \<Rightarrow> bool" where
  "is_upper c \<longleftrightarrow> 65 \<le> (of_char c :: nat) \<and> (of_char c :: nat) \<le> 90"

definition is_lower :: "char \<Rightarrow> bool" where
  "is_lower c \<longleftrightarrow> 97 \<le> (of_char c :: nat) \<and> (of_char c :: nat) \<le> 122"

definition is_alpha :: "char \<Rightarrow> bool" where
  "is_alpha c \<longleftrightarrow> is_upper c \<or> is_lower c"

text \<open>The class \<^verbatim>\<open>\d\<close> (and \<^verbatim>\<open>[0-9]\<close>).\<close>

definition is_digit :: "char \<Rightarrow> bool" where
  "is_digit c \<longleftrightarrow> 48 \<le> (of_char c :: nat) \<and> (of_char c :: nat) \<le> 57"

text \<open>The class \<^verbatim>\<open>[A-Za-z_]\<close>, the first character of an identifier.\<close>

definition is_ident_start :: "char \<Rightarrow> bool" where
  "is_ident_start c \<longleftrightarrow> is_upper c \<or> is_lower c \<or> c = CHR ''_''"

text \<open>The class \<^verbatim>\<open>[A-Za-z0-9_]\<close>, the later characters of an identifier.\<close>

definition is_ident_char :: "char \<Rightarrow> bool" where
  "is_ident_char c \<longleftrightarrow> is_upper c \<or> is_lower c \<or> is_digit c \<or> c = CHR ''_''"

text \<open>The class \<^verbatim>\<open>\w\<close>, which decides where \<^verbatim>\<open>\b\<close> holds.\<close>

definition is_word :: "char \<Rightarrow> bool" where
  "is_word c \<longleftrightarrow> is_upper c \<or> is_lower c \<or> is_digit c \<or> c = CHR ''_''"

text \<open>
  The class \<^verbatim>\<open>\s\<close>, which is also what \<^verbatim>\<open>str.strip()\<close> removes: tab, line feed, vertical
  tab, form feed, carriage return, the four separators 0x1C to 0x1F and the space.
\<close>

definition is_space :: "char \<Rightarrow> bool" where
  "is_space c \<longleftrightarrow> (of_char c :: nat) \<in> {9, 10, 11, 12, 13, 28, 29, 30, 31, 32}"

definition to_lower :: "char \<Rightarrow> char" where
  "to_lower c = (if is_upper c then char_of (of_char c + (32::nat)) else c)"

definition to_upper :: "char \<Rightarrow> char" where
  "to_upper c = (if is_lower c then char_of (of_char c - (32::nat)) else c)"

text \<open>\<^verbatim>\<open>s.lower()\<close> and \<^verbatim>\<open>s.upper()\<close>.\<close>

definition lower :: "string \<Rightarrow> string" where
  "lower s = map to_lower s"

definition upper :: "string \<Rightarrow> string" where
  "upper s = map to_upper s"

text \<open>\<^verbatim>\<open>s.strip()\<close> removes white space at both ends.\<close>

definition strip :: "string \<Rightarrow> string" where
  "strip s = rev (dropWhile is_space (rev (dropWhile is_space s)))"

text \<open>\<^verbatim>\<open>s.rstrip(";")\<close> removes every semicolon at the end.\<close>

definition rstrip_semicolon :: "string \<Rightarrow> string" where
  "rstrip_semicolon s = rev (dropWhile (\<lambda>c. c = CHR '';'') (rev s))"

text \<open>\<^verbatim>\<open>needle in s\<close>: the needle occurs in \<open>s\<close> as a contiguous substring.\<close>

fun is_prefix :: "string \<Rightarrow> string \<Rightarrow> bool" where
  "is_prefix [] s = True"
| "is_prefix (p # ps) [] = False"
| "is_prefix (p # ps) (c # cs) = (p = c \<and> is_prefix ps cs)"

fun contains :: "string \<Rightarrow> string \<Rightarrow> bool" where
  "contains [] needle = (needle = [])"
| "contains (c # cs) needle = (is_prefix needle (c # cs) \<or> contains cs needle)"

text \<open>\<^verbatim>\<open>str(n)\<close> for an integer: decimal digits, with a minus sign when negative.\<close>

definition digit_char :: "nat \<Rightarrow> char" where
  "digit_char d = char_of (48 + d)"

function show_nat :: "nat \<Rightarrow> string" where
  "show_nat n = (if n < 10 then [digit_char n] else show_nat (n div 10) @ [digit_char (n mod 10)])"
  by pat_completeness auto
termination
  by (relation "measure id") auto

declare show_nat.simps [simp del]

definition show_int :: "int \<Rightarrow> string" where
  "show_int i = (if i < 0 then CHR ''-'' # show_nat (nat (- i)) else show_nat (nat i))"

section \<open>Regular expressions\<close>

text \<open>
  A scan of the text carries the rest of the text from the current position and one bit
  about what lies before it: whether the previous character is a word character
  (\<open>False\<close> at the start of the text). That bit is all \<^verbatim>\<open>\b\<close> needs to look behind.
\<close>

definition starts_with :: "(char \<Rightarrow> bool) \<Rightarrow> string \<Rightarrow> bool" where
  "starts_with P s \<longleftrightarrow> s \<noteq> [] \<and> P (hd s)"

definition ends_with :: "(char \<Rightarrow> bool) \<Rightarrow> string \<Rightarrow> bool" where
  "ends_with P s \<longleftrightarrow> s \<noteq> [] \<and> P (last s)"

text \<open>
  The bit a scan carries once it has passed the characters \<open>pre\<close>: the last of them
  decides, and before the first character the bit is the one the scan began with.
\<close>

definition prev_flag :: "bool \<Rightarrow> string \<Rightarrow> bool" where
  "prev_flag prev_word pre = (if pre = [] then prev_word else is_word (last pre))"

text \<open>\<^verbatim>\<open>\b\<close>: exactly one of the two neighbours of the position is a word character.\<close>

definition word_boundary :: "bool \<Rightarrow> string \<Rightarrow> bool" where
  "word_boundary prev_word s \<longleftrightarrow> prev_word \<noteq> starts_with is_word s"

text \<open>
  A literal under \<^verbatim>\<open>re.IGNORECASE\<close>: the text starts with the literal, letters compared
  without regard to case.
\<close>

definition ci_prefix :: "string \<Rightarrow> string \<Rightarrow> bool" where
  "ci_prefix lit s \<longleftrightarrow> length lit \<le> length s \<and> lower (take (length lit) s) = lower lit"

text \<open>
  A literal followed by \<^verbatim>\<open>\b\<close>: the boundary is between the last character the literal
  took and the rest.
\<close>

definition lit_boundary :: "string \<Rightarrow> string \<Rightarrow> bool" where
  "lit_boundary lit s \<longleftrightarrow>
     ci_prefix lit s \<and>
     word_boundary (ends_with is_word (take (length lit) s)) (drop (length lit) s)"

text \<open>
  \<^verbatim>\<open>pattern.search(s)\<close> as a truth value: the pattern matches at some position, tried from
  left to right, the end of the text included.
\<close>

fun re_search :: "(bool \<Rightarrow> string \<Rightarrow> bool) \<Rightarrow> bool \<Rightarrow> string \<Rightarrow> bool" where
  "re_search m prev_word [] = m prev_word []"
| "re_search m prev_word (c # cs) = (m prev_word (c # cs) \<or> re_search m (is_word c) cs)"

text \<open>
  \<^verbatim>\<open>pattern.finditer(s)\<close>: the matches from left to right, none overlapping another. A
  match at a position gives its groups and its length \<open>n\<close>; the scan resumes where the match
  ends, so the next \<open>n - 1\<close> positions are skipped (\<open>skip\<close> counts them down). All patterns
  here match at least one character.
\<close>

fun re_finditer :: "(bool \<Rightarrow> string \<Rightarrow> ('g \<times> nat) option) \<Rightarrow> nat \<Rightarrow> bool \<Rightarrow> string \<Rightarrow> 'g list" where
  "re_finditer m skip prev_word [] =
     (case skip of
        0 \<Rightarrow> (case m prev_word [] of Some (g, n) \<Rightarrow> [g] | None \<Rightarrow> [])
      | Suc k \<Rightarrow> [])"
| "re_finditer m skip prev_word (c # cs) =
     (case skip of
        0 \<Rightarrow> (case m prev_word (c # cs) of
                Some (g, n) \<Rightarrow> g # re_finditer m (n - 1) (is_word c) cs
              | None \<Rightarrow> re_finditer m 0 (is_word c) cs)
      | Suc k \<Rightarrow> re_finditer m k (is_word c) cs)"

section \<open>The guardrails\<close>

definition ALLOWED_TABLE :: string where
  "ALLOWED_TABLE = ''transactions''"

definition ALLOWED_COLUMNS :: "string list" where
  "ALLOWED_COLUMNS = [''id'', ''ts'', ''amount'', ''ccy'', ''counterparty'', ''book'']"

definition TABLE_NAME :: string where
  "TABLE_NAME = lower ALLOWED_TABLE"

definition ALLOWED_COLS_LC :: "string list" where
  "ALLOWED_COLS_LC = map lower ALLOWED_COLUMNS"

text \<open>
  \<^verbatim>\<open>DDL_DML_PATTERN\<close> is \<^verbatim>\<open>\b(DROP|DELETE|...|VACUUM)\b\<close> under \<^verbatim>\<open>IGNORECASE\<close>: at a
  position with a word boundary, the alternatives are tried in order, and one of them
  followed by a word boundary is a match.
\<close>

definition DDL_DML_KEYWORDS :: "string list" where
  "DDL_DML_KEYWORDS = [''DROP'', ''DELETE'', ''UPDATE'', ''INSERT'', ''ALTER'', ''CREATE'',
     ''TRUNCATE'', ''ATTACH'', ''PRAGMA'', ''VACUUM'']"

definition DDL_DML_match :: "bool \<Rightarrow> string \<Rightarrow> bool" where
  "DDL_DML_match prev_word s \<longleftrightarrow>
     word_boundary prev_word s \<and> list_ex (\<lambda>kw. lit_boundary kw s) DDL_DML_KEYWORDS"

definition DDL_DML_search :: "string \<Rightarrow> bool" where
  "DDL_DML_search sql = re_search DDL_DML_match False sql"

text \<open>
  \<^verbatim>\<open>is_select\<close> matches \<^verbatim>\<open>^\s*SELECT\b\<close> at the start of the text. The run \<^verbatim>\<open>\s*\<close> is
  greedy; a shorter run leaves a white-space character where \<^verbatim>\<open>S\<close> must stand, so only the
  longest run can match.
\<close>

definition is_select :: "string \<Rightarrow> bool" where
  "is_select sql = lit_boundary ''SELECT'' (dropWhile is_space sql)"

text \<open>
  \<^verbatim>\<open>TABLE_FROM_PATTERN\<close> and \<^verbatim>\<open>TABLE_JOIN_PATTERN\<close> are
  \<^verbatim>\<open>\bKW\s+([A-Za-z_][A-Za-z0-9_]*)\<close> under \<^verbatim>\<open>IGNORECASE\<close>. Both runs are greedy and
  each is followed by something its own class excludes, so the longest run is the one that
  matches. The group is the identifier, the length is that of the whole match.
\<close>

definition kw_ident_match :: "string \<Rightarrow> bool \<Rightarrow> string \<Rightarrow> (string \<times> nat) option" where
  "kw_ident_match kw prev_word s =
     (let r = drop (length kw) s;
          ws = takeWhile is_space r;
          r' = dropWhile is_space r;
          g = takeWhile is_ident_char r'
      in if word_boundary prev_word s \<and> ci_prefix kw s \<and> ws \<noteq> [] \<and> starts_with is_ident_start r'
         then Some (g, length kw + length ws + length g)
         else None)"

definition TABLE_FROM_finditer :: "string \<Rightarrow> string list" where
  "TABLE_FROM_finditer sql = re_finditer (kw_ident_match ''FROM'') 0 False sql"

definition TABLE_JOIN_finditer :: "string \<Rightarrow> string list" where
  "TABLE_JOIN_finditer sql = re_finditer (kw_ident_match ''JOIN'') 0 False sql"

definition TABLE_FROM_search :: "string \<Rightarrow> bool" where
  "TABLE_FROM_search sql = re_search (\<lambda>p s. kw_ident_match ''FROM'' p s \<noteq> None) False sql"

text \<open>
  \<^verbatim>\<open>only_allowed_tables\<close>: the first loop returns \<open>False\<close> at the first \<^verbatim>\<open>FROM\<close> match
  whose group is not the table name, the second does the same for \<^verbatim>\<open>JOIN\<close>, and the last
  line asks for one \<^verbatim>\<open>FROM\<close> match.
\<close>

definition only_allowed_tables :: "string \<Rightarrow> bool" where
  "only_allowed_tables sql =
     (if list_ex (\<lambda>g. lower g \<noteq> TABLE_NAME) (TABLE_FROM_finditer sql) then False
      else if list_ex (\<lambda>g. lower g \<noteq> TABLE_NAME) (TABLE_JOIN_finditer sql) then False
      else TABLE_FROM_search sql)"

text \<open>
  \<^verbatim>\<open>DOT_COL_PATTERN\<close> is \<^verbatim>\<open>\b([A-Za-z_][A-Za-z0-9_]*)\.([A-Za-z_][A-Za-z0-9_]*)\<close>. The first
  identifier is the longest run of identifier characters (a shorter one is followed by an
  identifier character, not by the dot), then the dot, then the second identifier.
\<close>

definition DOT_COL_match :: "bool \<Rightarrow> string \<Rightarrow> ((string \<times> string) \<times> nat) option" where
  "DOT_COL_match prev_word s =
     (let t = takeWhile is_ident_char s;
          r = dropWhile is_ident_char s;
          c = takeWhile is_ident_char (drop 1 r)
      in if word_boundary prev_word s \<and> starts_with is_ident_start s
            \<and> starts_with (\<lambda>x. x = CHR ''.'') r \<and> starts_with is_ident_start (drop 1 r)
         then Some ((t, c), length t + 1 + length c)
         else None)"

definition DOT_COL_finditer :: "string \<Rightarrow> (string \<times> string) list" where
  "DOT_COL_finditer sql = re_finditer DOT_COL_match 0 False sql"

definition dot_columns_are_allowed :: "string \<Rightarrow> bool" where
  "dot_columns_are_allowed sql =
     (\<not> list_ex (\<lambda>(t, c). lower t \<noteq> TABLE_NAME \<or> lower c \<notin> set ALLOWED_COLS_LC)
          (DOT_COL_finditer sql))"

text \<open>
  \<^verbatim>\<open>has_limit\<close> searches \<^verbatim>\<open>\bLIMIT\s+\d+\b\<close> under \<^verbatim>\<open>IGNORECASE\<close>. The digits are the
  longest run: after a shorter run the next character is a digit and no boundary holds.
\<close>

definition LIMIT_match :: "bool \<Rightarrow> string \<Rightarrow> bool" where
  "LIMIT_match prev_word s =
     (let r = drop 5 s;
          ws = takeWhile is_space r;
          r' = dropWhile is_space r;
          ds = takeWhile is_digit r';
          r'' = dropWhile is_digit r'
      in word_boundary prev_word s \<and> ci_prefix ''LIMIT'' s \<and> ws \<noteq> [] \<and> ds \<noteq> []
         \<and> word_boundary (ends_with is_word ds) r'')"

definition has_limit :: "string \<Rightarrow> bool" where
  "has_limit sql = re_search LIMIT_match False sql"

definition AGG_FUNCS :: "string list" where
  "AGG_FUNCS = [''COUNT'', ''SUM'', ''AVG'', ''MIN'', ''MAX'']"

definition is_aggregate :: "string \<Rightarrow> bool" where
  "is_aggregate sql = list_ex (\<lambda>func. contains (upper sql) func) AGG_FUNCS"

definition add_default_limit :: "string \<Rightarrow> int \<Rightarrow> string" where
  "add_default_limit sql default_limit =
     (if \<not> has_limit sql \<and> \<not> is_aggregate sql
      then rstrip_semicolon sql @ '' LIMIT '' @ show_int default_limit @ '';''
      else sql)"

text \<open>
  \<^verbatim>\<open>sanitize_sql\<close> returns \<^verbatim>\<open>(False, message)\<close> or \<^verbatim>\<open>(True, sql_final)\<close>. The four messages
  are the four reasons of a rejection; \<open>reason_message\<close> gives the text of each.
\<close>

datatype reason = NotASelect | UnsafeKeyword | UnknownTable | UnknownColumn

fun reason_message :: "reason \<Rightarrow> string" where
  "reason_message NotASelect = ''Only SELECT queries are allowed.''"
| "reason_message UnsafeKeyword = ''Destructive or unsafe SQL detected (DDL/DML not allowed).''"
| "reason_message UnknownTable = ''Query references unknown or disallowed tables.''"
| "reason_message UnknownColumn = ''Query references unknown columns via dot notation.''"

definition sql_clean :: "string \<Rightarrow> string" where
  "sql_clean sql = rstrip_semicolon (strip sql) @ '';''"

definition sanitize_sql :: "string \<Rightarrow> reason + string" where
  "sanitize_sql sql =
     (if \<not> is_select (sql_clean sql) then Inl NotASelect
      else if DDL_DML_search (sql_clean sql) then Inl UnsafeKeyword
      else if \<not> only_allowed_tables (sql_clean sql) then Inl UnknownTable
      else if \<not> dot_columns_are_allowed (sql_clean sql) then Inl UnknownColumn
      else Inr (add_default_limit (sql_clean sql) 100))"

section \<open>Execution\<close>

text \<open>
  The store is outside the program: \<open>engine\<close> stands for \<^verbatim>\<open>sqlite3.connect\<close> followed by
  \<^verbatim>\<open>pd.read_sql_query\<close>, and gives the rows of the answer in the engine's order or the
  message of the exception raised. \<^verbatim>\<open>df.head(n)\<close> keeps the first \<open>n\<close> rows and, for a
  negative \<open>n\<close>, all rows but the last \<open>- n\<close>.
\<close>

definition head :: "int \<Rightarrow> 'row list \<Rightarrow> 'row list" where
  "head n df = (if 0 \<le> n then take (nat n) df else take (length df - nat (- n)) df)"

definition execute_sql :: "(string \<Rightarrow> string + 'row list) \<Rightarrow> string \<Rightarrow> int \<Rightarrow> string + 'row list" where
  "execute_sql engine sql limit_rows =
     (case engine sql of
        Inl e \<Rightarrow> Inl e
      | Inr df \<Rightarrow> Inr (if int (length df) > limit_rows then head limit_rows df else df))"


section \<open>The entry point\<close>

text \<open>
  \<^verbatim>\<open>nl2sql_run\<close> returns the triple \<^verbatim>\<open>(generated_sql, dataframe, error_message)\<close>, each part
  \<^verbatim>\<open>None\<close> or a value. Its surroundings are parameters: \<open>db_exists\<close> is the answer of
  \<^verbatim>\<open>os.path.exists(db_path)\<close>, \<open>llm_sql\<close> is the call of the text generator, which returns
  the candidate statement or raises (\<open>Inl\<close> holds the exception's text), and \<open>engine\<close> is the
  store. Next to the triple the model returns the statements handed to \<open>execute_sql\<close>, in
  order, so that what reaches the store can be stated.
\<close>

type_synonym 'row outcome = "string option \<times> 'row list option \<times> string option"

definition nl2sql_run ::
  "bool \<Rightarrow> (string \<Rightarrow> string + string) \<Rightarrow> (string \<Rightarrow> string + 'row list) \<Rightarrow> string \<Rightarrow> string
     \<Rightarrow> 'row outcome \<times> string list" where
  "nl2sql_run db_exists llm_sql engine user_query db_path =
     (if \<not> db_exists then
        ((None, None,
          Some (''Database not found at '' @ db_path @ ''. Run data/make_transactions_db.py first.'')),
         [])
      else case llm_sql user_query of
        Inl e \<Rightarrow> ((None, None, Some (''LLM error: '' @ e)), [])
      | Inr raw_sql \<Rightarrow>
          (case sanitize_sql raw_sql of
             Inl r \<Rightarrow> ((Some raw_sql, None, Some (''Blocked query: '' @ reason_message r)), [])
           | Inr safe \<Rightarrow>
               (case execute_sql engine safe 100 of
                  Inr df \<Rightarrow> ((Some safe, Some df, None), [safe])
                | Inl e \<Rightarrow> ((Some safe, None, Some (''SQL execution error: '' @ e)), [safe]))))"

section \<open>What the specification speaks of\<close>

text \<open>
  The specification states the gates in terms of words, identifiers and clauses of the
  text. These are written here without reference to any scan, as decompositions of the
  text, and related to the scans of the program below.
\<close>

text \<open>The keyword occurs in the text as a whole word, in any case, at any position.\<close>

definition whole_word_in :: "string \<Rightarrow> string \<Rightarrow> bool" where
  "whole_word_in kw s \<longleftrightarrow>
     (\<exists>pre w post. s = pre @ w @ post \<and> lower w = lower kw
        \<and> \<not> ends_with is_word pre \<and> \<not> starts_with is_word post)"

text \<open>The text begins with the keyword as a whole word, in any case.\<close>

definition begins_with_word :: "string \<Rightarrow> string \<Rightarrow> bool" where
  "begins_with_word kw s \<longleftrightarrow>
     (\<exists>w post. s = w @ post \<and> lower w = lower kw \<and> \<not> starts_with is_word post)"

text \<open>
  A single \<^verbatim>\<open>SELECT\<close> statement: the text begins with the keyword and holds no statement
  terminator other than the one that ends it.
\<close>

definition single_select_statement :: "string \<Rightarrow> bool" where
  "single_select_statement s \<longleftrightarrow>
     begins_with_word ''SELECT'' s \<and> length (filter (\<lambda>c. c = CHR '';'') s) \<le> 1"

definition is_identifier :: "string \<Rightarrow> bool" where
  "is_identifier g \<longleftrightarrow> starts_with is_ident_start g \<and> (\<forall>c\<in>set g. is_ident_char c)"

text \<open>
  The identifier \<open>g\<close> immediately follows the keyword in the text: the keyword as a word
  of its own, white space, then the whole identifier.
\<close>

definition table_after :: "string \<Rightarrow> string \<Rightarrow> string \<Rightarrow> bool" where
  "table_after kw s g \<longleftrightarrow>
     (\<exists>pre w ws post. s = pre @ w @ ws @ g @ post \<and> \<not> ends_with is_word pre
        \<and> lower w = lower kw \<and> ws \<noteq> [] \<and> (\<forall>c\<in>set ws. is_space c)
        \<and> is_identifier g \<and> \<not> starts_with is_ident_char post)"

definition tables_allowed :: "string \<Rightarrow> bool" where
  "tables_allowed s \<longleftrightarrow>
     (\<forall>g. table_after ''FROM'' s g \<or> table_after ''JOIN'' s g \<longrightarrow> lower g = TABLE_NAME)
     \<and> (\<exists>g. table_after ''FROM'' s g \<and> lower g = TABLE_NAME)"

text \<open>
  The text has the occurrence \<open>t.c\<close> of two whole identifiers joined by a dot, right after
  the characters \<open>pre\<close>.
\<close>

definition qualified_at :: "string \<Rightarrow> string \<Rightarrow> string \<Rightarrow> string \<Rightarrow> bool" where
  "qualified_at s pre t c \<longleftrightarrow>
     (\<exists>post. s = pre @ t @ ''.'' @ c @ post \<and> \<not> ends_with is_word pre
        \<and> is_identifier t \<and> is_identifier c \<and> \<not> starts_with is_ident_char post)"

definition column_allowed :: "string \<Rightarrow> string \<Rightarrow> bool" where
  "column_allowed t c \<longleftrightarrow> lower t = TABLE_NAME \<and> lower c \<in> set ALLOWED_COLS_LC"

section \<open>Execution never exceeds the row cap\<close>

lemma head_length: "0 \<le> n \<Longrightarrow> int (length (head n df)) \<le> n"
  by (simp add: head_def)

text \<open>
  Claim C2. For every statement, every store and every row cap that is not negative,
  \<open>execute_sql\<close> returns at most \<open>limit_rows\<close> rows, whatever the engine returned; when the
  engine returns 500 rows and the cap is 100, the result has exactly 100 rows.
\<close>

theorem execute_sql_row_cap:
  "(0 \<le> limit_rows \<longrightarrow> execute_sql engine sql limit_rows = Inr df
      \<longrightarrow> int (length df) \<le> limit_rows)
   \<and> (engine sql = Inr rows \<longrightarrow> length rows = 500
      \<longrightarrow> (\<exists>df'. execute_sql engine sql 100 = Inr df' \<and> length df' = 100))"
proof (intro conjI impI)
  assume cap: "0 \<le> limit_rows" and run: "execute_sql engine sql limit_rows = Inr df"
  show "int (length df) \<le> limit_rows"
  proof (cases "engine sql")
    case (Inl e)
    with run show ?thesis by (simp add: execute_sql_def)
  next
    case (Inr all_rows)
    show ?thesis
    proof (cases "int (length all_rows) > limit_rows")
      case True
      with Inr run have "df = head limit_rows all_rows" by (simp add: execute_sql_def)
      with cap show ?thesis by (simp add: head_length)
    next
      case False
      with Inr run have "df = all_rows" by (simp add: execute_sql_def)
      with False show ?thesis by simp
    qed
  qed
next
  assume "engine sql = Inr rows" and "length rows = 500"
  then show "\<exists>df'. execute_sql engine sql 100 = Inr df' \<and> length df' = 100"
    by (simp add: execute_sql_def head_def)
qed

theorem execute_sql_row_cap_witness:
  "(0::int) \<le> 100
   \<and> execute_sql (\<lambda>q. Inr [0..<500]) ''SELECT id FROM transactions LIMIT 100;'' 100
       = Inr [0..<100]
   \<and> int (length [0..<100]) \<le> 100
   \<and> (\<exists>df'. execute_sql (\<lambda>q. Inr [0..<500]) ''SELECT id FROM transactions LIMIT 100;'' 100
         = Inr df' \<and> length df' = 100)"
proof -
  have run: "execute_sql (\<lambda>q. Inr [0..<500]) ''SELECT id FROM transactions LIMIT 100;'' 100
      = Inr [0..<100]"
    by (simp add: execute_sql_def head_def take_upt)
  have cap: "(0::int) \<le> 100" by simp
  have len: "length [0..<500] = 500" by simp
  from execute_sql_row_cap [of 100 "\<lambda>q. Inr [0..<500]"
      "''SELECT id FROM transactions LIMIT 100;''" "[0..<100]" "[0..<500]"] cap run len
  show ?thesis by simp
qed

text \<open>
  Claim C9. Truncation keeps a prefix in the engine's order: when the engine returns at
  most \<open>limit_rows\<close> rows the result is the engine's, unmodified; when it returns more (and
  the cap is not negative) the result is exactly the first \<open>limit_rows\<close> rows.
\<close>

theorem execute_sql_prefix:
  "engine sql = Inr rows \<Longrightarrow>
     (int (length rows) \<le> limit_rows \<longrightarrow> execute_sql engine sql limit_rows = Inr rows)
     \<and> (0 \<le> limit_rows \<longrightarrow> limit_rows < int (length rows)
          \<longrightarrow> execute_sql engine sql limit_rows = Inr (take (nat limit_rows) rows))"
  by (simp add: execute_sql_def head_def)

theorem execute_sql_prefix_witness:
  "execute_sql (\<lambda>q. Inr [10, 20, 30, 40 :: nat]) ''SELECT id FROM transactions;'' 4
     = Inr [10, 20, 30, 40]
   \<and> execute_sql (\<lambda>q. Inr [10, 20, 30, 40 :: nat]) ''SELECT id FROM transactions;'' 2
     = Inr [10, 20]"
  using execute_sql_prefix [of "\<lambda>q. Inr [10, 20, 30, 40 :: nat]"
      "''SELECT id FROM transactions;''" "[10, 20, 30, 40]" 4]
    execute_sql_prefix [of "\<lambda>q. Inr [10, 20, 30, 40 :: nat]"
      "''SELECT id FROM transactions;''" "[10, 20, 30, 40]" 2]
  by simp

end
